theory Spec2Isabelle
  imports Main "HOL-Library.Word" "HOL-Library.Monad_Syntax"
begin

unbundle bit_operations_syntax

section \<open>The PPC64 macro assembler: data model\<close>

text \<open>
  The development embeds the parts of \<^verbatim>\<open>js/src/jit/ppc64/MacroAssembler-ppc64.cpp\<close> and
  \<^verbatim>\<open>MacroAssembler-ppc64-inl.h\<close> that materialise immediates, resolve memory operands,
  synthesise compare-and-branch sequences, emit toggled calls, unbox tagged values and emit
  atomic retry loops. A macro-assembler function appends instruction words to a buffer; it
  is modelled as a function on the assembler state \<open>masm\<close>. The instructions themselves are
  given their Power ISA meaning on a machine state, so that an emitted sequence can be run.
\<close>

subsection \<open>Registers\<close>

text \<open>
  A general purpose register is its code (r0 .. r31). The two registers reserved for the
  macro assembler are r0 and r12: the source says so where it uses them
  (\<^verbatim>\<open>since ScratchRegister is r0\<close> in \<^verbatim>\<open>clampIntToUint8\<close>,
  \<^verbatim>\<open>Use r12 "as expected"\<close> beside \<^verbatim>\<open>SecondScratchReg\<close> in \<^verbatim>\<open>ma_b\<close>).
\<close>

type_synonym Register = nat

definition ScratchRegister :: Register where
  "ScratchRegister = 0"

definition SecondScratchReg :: Register where
  "SecondScratchReg = 12"

text \<open>Condition register fields cr0 .. cr7.\<close>

type_synonym CRegisterID = nat

definition cr0 :: CRegisterID where
  "cr0 = 0"

subsection \<open>Conditions\<close>

text \<open>
  Modelled from the spec: the \<^verbatim>\<open>Condition\<close> enumeration of the assembler header, which is
  not among the sources. The spec describes it as a tagged value combining a base
  comparator (equal, not-equal, less/greater variants) with modifier bits ("test against
  zero", "unsigned comparison", "carry/overflow-only"). The comparator is what the branch
  instruction tests in a condition register field; the modifiers only steer the macro
  assembler. \<^verbatim>\<open>c & ConditionUnsigned\<close> is \<open>condUnsigned c\<close>, \<^verbatim>\<open>c & ConditionZero\<close> is
  \<open>condZero c\<close>, \<^verbatim>\<open>c & ConditionOnlyXER\<close> is \<open>condOnlyXER c\<close>, and \<^verbatim>\<open>c < 0x100\<close>
  (no modifier bit set) is \<open>noModifier c\<close>.
\<close>

datatype Comparator =
    CmpEqual | CmpNotEqual
  | CmpLessThan | CmpGreaterThanOrEqual
  | CmpGreaterThan | CmpLessThanOrEqual
  | CmpSOBit | CmpNSOBit
  | CmpAlways

record Condition =
  comparator :: Comparator
  condUnsigned :: bool
  condZero :: bool
  condOnlyXER :: bool

definition plainCond :: "Comparator \<Rightarrow> Condition" where
  "plainCond k = \<lparr>comparator = k, condUnsigned = False, condZero = False, condOnlyXER = False\<rparr>"

definition Equal :: Condition where "Equal = plainCond CmpEqual"
definition NotEqual :: Condition where "NotEqual = plainCond CmpNotEqual"
definition LessThan :: Condition where "LessThan = plainCond CmpLessThan"
definition LessThanOrEqual :: Condition where "LessThanOrEqual = plainCond CmpLessThanOrEqual"
definition GreaterThan :: Condition where "GreaterThan = plainCond CmpGreaterThan"
definition GreaterThanOrEqual :: Condition where
  "GreaterThanOrEqual = plainCond CmpGreaterThanOrEqual"
definition SOBit :: Condition where "SOBit = plainCond CmpSOBit"
definition NSOBit :: Condition where "NSOBit = plainCond CmpNSOBit"
definition Always :: Condition where "Always = plainCond CmpAlways"

definition Above :: Condition where "Above = GreaterThan\<lparr>condUnsigned := True\<rparr>"
definition AboveOrEqual :: Condition where
  "AboveOrEqual = GreaterThanOrEqual\<lparr>condUnsigned := True\<rparr>"
definition Below :: Condition where "Below = LessThan\<lparr>condUnsigned := True\<rparr>"
definition BelowOrEqual :: Condition where
  "BelowOrEqual = LessThanOrEqual\<lparr>condUnsigned := True\<rparr>"

definition Zero :: Condition where "Zero = Equal\<lparr>condZero := True\<rparr>"
definition NonZero :: Condition where "NonZero = NotEqual\<lparr>condZero := True\<rparr>"
definition Signed :: Condition where "Signed = LessThan\<lparr>condZero := True\<rparr>"
definition NotSigned :: Condition where "NotSigned = GreaterThan\<lparr>condZero := True\<rparr>"

definition noModifier :: "Condition \<Rightarrow> bool" where
  "noModifier c = (\<not> condUnsigned c \<and> \<not> condZero c \<and> \<not> condOnlyXER c)"

text \<open>
  Modelled from the spec: \<^verbatim>\<open>Assembler::InvertCondition\<close> (assembler source, not among the
  sources). The inverted condition tests the same condition register bit with the opposite
  sense and keeps the modifiers.
\<close>

fun invertComparator :: "Comparator \<Rightarrow> Comparator" where
  "invertComparator CmpEqual = CmpNotEqual"
| "invertComparator CmpNotEqual = CmpEqual"
| "invertComparator CmpLessThan = CmpGreaterThanOrEqual"
| "invertComparator CmpGreaterThanOrEqual = CmpLessThan"
| "invertComparator CmpGreaterThan = CmpLessThanOrEqual"
| "invertComparator CmpLessThanOrEqual = CmpGreaterThan"
| "invertComparator CmpSOBit = CmpNSOBit"
| "invertComparator CmpNSOBit = CmpSOBit"
| "invertComparator CmpAlways = CmpAlways"

definition InvertCondition :: "Condition \<Rightarrow> Condition" where
  "InvertCondition c = c\<lparr>comparator := invertComparator (comparator c)\<rparr>"

subsection \<open>Instruction words\<close>

text \<open>
  The instructions the embedded functions emit; every value of \<open>instr\<close> stands for one
  4-byte word of the buffer. Operands are in the order of the assembler call
  (\<^verbatim>\<open>as_ori(ra, rs, imm)\<close> is \<open>DForm ORI ra rs imm\<close>); instructions of one operand
  shape share a constructor and are told apart by their mnemonic. \<open>TrapTagged\<close> and
  \<open>RawWord\<close> are the placeholder words of a branch to an unbound label.
\<close>

datatype LinkBit = DontLinkB | LinkB

datatype TrapTag = LongJumpTag | StaticShortJumpTag | CallTag

text \<open>Register-register-immediate instructions: arithmetic, logic, loads and stores.\<close>

datatype DOp =
    ADDI | ADDIS | ORI | ORIS | XORI | ANDI_RC
  | LBZ | LHZ | LWZ | LD | STB | STH | STW | STD

text \<open>Three-register instructions.\<close>

datatype XOp =
    ADD | SUBF | AND_RR | OR_RR | XOR_RR | NOR_RR | ADDO_RC | SUBFO_RC | SLW | SRW
  | LDARX | STDCX | LWARX | STWCX

datatype CmpOp = CMPD | CMPLD | CMPW | CMPLW

datatype ExtOp = EXTSB | EXTSH | EXTSW

datatype instr =
    DForm DOp Register Register "16 word"
  | XForm XOp Register Register Register
  | Cmp CmpOp Register Register
  | CmpI CmpOp Register "16 word"
  | Ext ExtOp Register Register
  | Rldicr Register Register nat nat
  | Rldicl Register Register nat nat
  | Rlwinm Register Register nat nat nat
  | Mtxer Register
  | Mtctr Register
  | Mfcr Register
  | Bctr LinkBit
  | Bc int Condition CRegisterID
  | B int
  | Nop
  | Lwsync
  | Trap
  | TrapTagged TrapTag
  | RawWord "32 word"

subsection \<open>Assembler state\<close>

text \<open>
  The buffer is the append-only sequence of instruction words; its next offset is four
  times its length. \<open>longJumps\<close> are the sites recorded by \<^verbatim>\<open>addLongJump\<close>,
  \<open>pendingJumps\<close> those recorded by \<^verbatim>\<open>addPendingJump\<close>. Allocation failure of the buffer
  (the sticky \<^verbatim>\<open>oom()\<close> flag) is not modelled: the buffer always has room, so
  \<^verbatim>\<open>ensureSpace\<close> changes nothing and \<^verbatim>\<open>!oom()\<close> holds.
\<close>

datatype RelocationKind = HARDCODED | JITCODE

record masm =
  buffer :: "instr list"
  longJumps :: "nat list"
  pendingJumps :: "(nat \<times> 64 word \<times> RelocationKind) list"

definition emptyMasm :: masm where
  "emptyMasm = \<lparr>buffer = [], longJumps = [], pendingJumps = []\<rparr>"

definition nextOffset :: "masm \<Rightarrow> nat" where
  "nextOffset m = 4 * length (buffer m)"

definition writeInst :: "instr \<Rightarrow> masm \<Rightarrow> masm" where
  "writeInst i m = m\<lparr>buffer := buffer m @ [i]\<rparr>"

definition addLongJump :: "nat \<Rightarrow> masm \<Rightarrow> masm" where
  "addLongJump off m = m\<lparr>longJumps := longJumps m @ [off]\<rparr>"

definition addPendingJump :: "nat \<Rightarrow> 64 word \<Rightarrow> RelocationKind \<Rightarrow> masm \<Rightarrow> masm" where
  "addPendingJump off target kind m = m\<lparr>pendingJumps := pendingJumps m @ [(off, target, kind)]\<rparr>"

text \<open>
  Modelled from the spec: the emitters \<^verbatim>\<open>as_*\<close> and \<^verbatim>\<open>xs_*\<close> of the assembler (its source
  is not among the sources). Each appends the one instruction word it is named after.
  \<^verbatim>\<open>xs_li\<close> and \<^verbatim>\<open>xs_lis\<close> are \<^verbatim>\<open>addi\<close> and \<^verbatim>\<open>addis\<close> with register operand 0, which the
  hardware reads as the constant zero; their immediate is an \<^verbatim>\<open>int16_t\<close>, the immediate of
  \<^verbatim>\<open>as_ori\<close>, \<^verbatim>\<open>as_oris\<close> a \<^verbatim>\<open>uint16_t\<close>, so a wider argument is truncated to 16 bits.
\<close>

definition xs_li :: "Register \<Rightarrow> 16 word \<Rightarrow> masm \<Rightarrow> masm" where
  "xs_li rd im = writeInst (DForm ADDI rd 0 im)"

definition xs_lis :: "Register \<Rightarrow> 16 word \<Rightarrow> masm \<Rightarrow> masm" where
  "xs_lis rd im = writeInst (DForm ADDIS rd 0 im)"

definition as_ori :: "Register \<Rightarrow> Register \<Rightarrow> 16 word \<Rightarrow> masm \<Rightarrow> masm" where
  "as_ori ra rs im = writeInst (DForm ORI ra rs im)"

definition as_oris :: "Register \<Rightarrow> Register \<Rightarrow> 16 word \<Rightarrow> masm \<Rightarrow> masm" where
  "as_oris ra rs im = writeInst (DForm ORIS ra rs im)"

definition as_rldicr :: "Register \<Rightarrow> Register \<Rightarrow> nat \<Rightarrow> nat \<Rightarrow> masm \<Rightarrow> masm" where
  "as_rldicr ra rs sh me = writeInst (Rldicr ra rs sh me)"

definition as_rldicl :: "Register \<Rightarrow> Register \<Rightarrow> nat \<Rightarrow> nat \<Rightarrow> masm \<Rightarrow> masm" where
  "as_rldicl ra rs sh mb = writeInst (Rldicl ra rs sh mb)"

definition as_nop :: "masm \<Rightarrow> masm" where
  "as_nop = writeInst Nop"

definition xs_mtctr :: "Register \<Rightarrow> masm \<Rightarrow> masm" where
  "xs_mtctr rs = writeInst (Mtctr rs)"

definition xs_mtxer :: "Register \<Rightarrow> masm \<Rightarrow> masm" where
  "xs_mtxer rs = writeInst (Mtxer rs)"

definition as_bctr :: "LinkBit \<Rightarrow> masm \<Rightarrow> masm" where
  "as_bctr lk = writeInst (Bctr lk)"

definition as_bc :: "int \<Rightarrow> Condition \<Rightarrow> CRegisterID \<Rightarrow> masm \<Rightarrow> masm" where
  "as_bc off c cr = writeInst (Bc off c cr)"

definition as_xori :: "Register \<Rightarrow> Register \<Rightarrow> 16 word \<Rightarrow> masm \<Rightarrow> masm" where
  "as_xori ra rs im = writeInst (DForm XORI ra rs im)"

definition as_andi_rc :: "Register \<Rightarrow> Register \<Rightarrow> 16 word \<Rightarrow> masm \<Rightarrow> masm" where
  "as_andi_rc ra rs im = writeInst (DForm ANDI_RC ra rs im)"

definition as_add :: "Register \<Rightarrow> Register \<Rightarrow> Register \<Rightarrow> masm \<Rightarrow> masm" where
  "as_add rd ra rb = writeInst (XForm ADD rd ra rb)"

definition as_subf :: "Register \<Rightarrow> Register \<Rightarrow> Register \<Rightarrow> masm \<Rightarrow> masm" where
  "as_subf rd ra rb = writeInst (XForm SUBF rd ra rb)"

definition as_and :: "Register \<Rightarrow> Register \<Rightarrow> Register \<Rightarrow> masm \<Rightarrow> masm" where
  "as_and ra rs rb = writeInst (XForm AND_RR ra rs rb)"

definition as_or :: "Register \<Rightarrow> Register \<Rightarrow> Register \<Rightarrow> masm \<Rightarrow> masm" where
  "as_or ra rs rb = writeInst (XForm OR_RR ra rs rb)"

definition as_xor :: "Register \<Rightarrow> Register \<Rightarrow> Register \<Rightarrow> masm \<Rightarrow> masm" where
  "as_xor ra rs rb = writeInst (XForm XOR_RR ra rs rb)"

definition as_nor :: "Register \<Rightarrow> Register \<Rightarrow> Register \<Rightarrow> masm \<Rightarrow> masm" where
  "as_nor ra rs rb = writeInst (XForm NOR_RR ra rs rb)"

definition as_addo_rc :: "Register \<Rightarrow> Register \<Rightarrow> Register \<Rightarrow> masm \<Rightarrow> masm" where
  "as_addo_rc rd ra rb = writeInst (XForm ADDO_RC rd ra rb)"

definition as_subfo_rc :: "Register \<Rightarrow> Register \<Rightarrow> Register \<Rightarrow> masm \<Rightarrow> masm" where
  "as_subfo_rc rd ra rb = writeInst (XForm SUBFO_RC rd ra rb)"

definition as_slw :: "Register \<Rightarrow> Register \<Rightarrow> Register \<Rightarrow> masm \<Rightarrow> masm" where
  "as_slw ra rs rb = writeInst (XForm SLW ra rs rb)"

definition as_srw :: "Register \<Rightarrow> Register \<Rightarrow> Register \<Rightarrow> masm \<Rightarrow> masm" where
  "as_srw ra rs rb = writeInst (XForm SRW ra rs rb)"

definition as_ldarx :: "Register \<Rightarrow> Register \<Rightarrow> Register \<Rightarrow> masm \<Rightarrow> masm" where
  "as_ldarx rt ra rb = writeInst (XForm LDARX rt ra rb)"

definition as_stdcx :: "Register \<Rightarrow> Register \<Rightarrow> Register \<Rightarrow> masm \<Rightarrow> masm" where
  "as_stdcx rs ra rb = writeInst (XForm STDCX rs ra rb)"

definition as_lwarx :: "Register \<Rightarrow> Register \<Rightarrow> Register \<Rightarrow> masm \<Rightarrow> masm" where
  "as_lwarx rt ra rb = writeInst (XForm LWARX rt ra rb)"

definition as_stwcx :: "Register \<Rightarrow> Register \<Rightarrow> Register \<Rightarrow> masm \<Rightarrow> masm" where
  "as_stwcx rs ra rb = writeInst (XForm STWCX rs ra rb)"

definition as_cmpd :: "Register \<Rightarrow> Register \<Rightarrow> masm \<Rightarrow> masm" where
  "as_cmpd ra rb = writeInst (Cmp CMPD ra rb)"

definition as_cmpld :: "Register \<Rightarrow> Register \<Rightarrow> masm \<Rightarrow> masm" where
  "as_cmpld ra rb = writeInst (Cmp CMPLD ra rb)"

definition as_cmpw :: "Register \<Rightarrow> Register \<Rightarrow> masm \<Rightarrow> masm" where
  "as_cmpw ra rb = writeInst (Cmp CMPW ra rb)"

definition as_cmplw :: "Register \<Rightarrow> Register \<Rightarrow> masm \<Rightarrow> masm" where
  "as_cmplw ra rb = writeInst (Cmp CMPLW ra rb)"

definition as_cmpdi :: "Register \<Rightarrow> 16 word \<Rightarrow> masm \<Rightarrow> masm" where
  "as_cmpdi ra im = writeInst (CmpI CMPD ra im)"

definition as_cmpwi :: "Register \<Rightarrow> 16 word \<Rightarrow> masm \<Rightarrow> masm" where
  "as_cmpwi ra im = writeInst (CmpI CMPW ra im)"

definition as_cmplwi :: "Register \<Rightarrow> 16 word \<Rightarrow> masm \<Rightarrow> masm" where
  "as_cmplwi ra im = writeInst (CmpI CMPLW ra im)"

definition as_extsb :: "Register \<Rightarrow> Register \<Rightarrow> masm \<Rightarrow> masm" where
  "as_extsb ra rs = writeInst (Ext EXTSB ra rs)"

definition as_extsh :: "Register \<Rightarrow> Register \<Rightarrow> masm \<Rightarrow> masm" where
  "as_extsh ra rs = writeInst (Ext EXTSH ra rs)"

definition as_extsw :: "Register \<Rightarrow> Register \<Rightarrow> masm \<Rightarrow> masm" where
  "as_extsw ra rs = writeInst (Ext EXTSW ra rs)"

definition as_lbz :: "Register \<Rightarrow> Register \<Rightarrow> 16 word \<Rightarrow> masm \<Rightarrow> masm" where
  "as_lbz rt ra d = writeInst (DForm LBZ rt ra d)"

definition as_lhz :: "Register \<Rightarrow> Register \<Rightarrow> 16 word \<Rightarrow> masm \<Rightarrow> masm" where
  "as_lhz rt ra d = writeInst (DForm LHZ rt ra d)"

definition as_lwz :: "Register \<Rightarrow> Register \<Rightarrow> 16 word \<Rightarrow> masm \<Rightarrow> masm" where
  "as_lwz rt ra d = writeInst (DForm LWZ rt ra d)"

definition as_ld :: "Register \<Rightarrow> Register \<Rightarrow> 16 word \<Rightarrow> masm \<Rightarrow> masm" where
  "as_ld rt ra d = writeInst (DForm LD rt ra d)"

definition as_stb :: "Register \<Rightarrow> Register \<Rightarrow> 16 word \<Rightarrow> masm \<Rightarrow> masm" where
  "as_stb rs ra d = writeInst (DForm STB rs ra d)"

definition as_sth :: "Register \<Rightarrow> Register \<Rightarrow> 16 word \<Rightarrow> masm \<Rightarrow> masm" where
  "as_sth rs ra d = writeInst (DForm STH rs ra d)"

definition as_stw :: "Register \<Rightarrow> Register \<Rightarrow> 16 word \<Rightarrow> masm \<Rightarrow> masm" where
  "as_stw rs ra d = writeInst (DForm STW rs ra d)"

definition as_std :: "Register \<Rightarrow> Register \<Rightarrow> 16 word \<Rightarrow> masm \<Rightarrow> masm" where
  "as_std rs ra d = writeInst (DForm STD rs ra d)"

definition as_mfcr :: "Register \<Rightarrow> masm \<Rightarrow> masm" where
  "as_mfcr rd = writeInst (Mfcr rd)"

definition as_rlwinm :: "Register \<Rightarrow> Register \<Rightarrow> nat \<Rightarrow> nat \<Rightarrow> nat \<Rightarrow> masm \<Rightarrow> masm" where
  "as_rlwinm ra rs sh mb me = writeInst (Rlwinm ra rs sh mb me)"

definition as_lwsync :: "masm \<Rightarrow> masm" where
  "as_lwsync = writeInst Lwsync"

definition as_b :: "int \<Rightarrow> masm \<Rightarrow> masm" where
  "as_b off = writeInst (B off)"

definition xs_trap :: "masm \<Rightarrow> masm" where
  "xs_trap = writeInst Trap"

definition xs_trap_tagged :: "TrapTag \<Rightarrow> masm \<Rightarrow> masm" where
  "xs_trap_tagged tag = writeInst (TrapTagged tag)"

text \<open>
  The extended mnemonics \<^verbatim>\<open>srdi\<close> and \<^verbatim>\<open>slwi\<close>: \<^verbatim>\<open>srdi ra,rs,n\<close> is
  \<^verbatim>\<open>rldicl ra,rs,64-n,n\<close> (as \<^verbatim>\<open>ma_dsrl\<close> of the source writes it out) and
  \<^verbatim>\<open>slwi ra,rs,n\<close> is \<^verbatim>\<open>rlwinm ra,rs,n,0,31-n\<close>.
\<close>

definition x_srdi :: "Register \<Rightarrow> Register \<Rightarrow> nat \<Rightarrow> masm \<Rightarrow> masm" where
  "x_srdi ra rs n = as_rldicl ra rs (64 - n) n"

definition x_slwi :: "Register \<Rightarrow> Register \<Rightarrow> nat \<Rightarrow> masm \<Rightarrow> masm" where
  "x_slwi ra rs n = as_rlwinm ra rs n 0 (31 - n)"

subsection \<open>Labels and immediates\<close>

text \<open>
  Modelled from the spec: the \<^verbatim>\<open>Label\<close> class of the shared assembler code. A label is
  unbound and unused, unbound with a chain of uses (it then holds the offset of the most
  recent use), or bound to its final offset.
\<close>

datatype Label = Unused | Used nat | Bound nat

datatype JumpKind = LongJump | ShortJump

text \<open>
  Modelled from the spec: \<^verbatim>\<open>LabelBase::INVALID_OFFSET\<close>, the sentinel that ends a use
  chain and fills a load that is patched later; no theorem depends on its value.
\<close>

definition INVALID_OFFSET :: "64 word" where
  "INVALID_OFFSET = 0x7fffffff"

text \<open>
  Modelled from the spec: the range predicates of the immediate classes in the assembler
  header. A short conditional branch and a memory access carry a signed 16-bit
  displacement, an unconditional branch a signed 26-bit one; an unsigned 16-bit immediate
  is a value below 65536. \<^verbatim>\<open>Imm16(v).encode()\<close> is the low halfword.
\<close>

definition BOffImm16_IsInSignedRange :: "int \<Rightarrow> bool" where
  "BOffImm16_IsInSignedRange off = (- 32768 \<le> off \<and> off \<le> 32767)"

definition JOffImm26_IsInRange :: "int \<Rightarrow> bool" where
  "JOffImm26_IsInRange off = (- 33554432 \<le> off \<and> off \<le> 33554431)"

definition Imm16_IsInSignedRange :: "32 word \<Rightarrow> bool" where
  "Imm16_IsInSignedRange v = (- 32768 \<le> sint v \<and> sint v \<le> 32767)"

definition Imm16_IsInUnsignedRange :: "32 word \<Rightarrow> bool" where
  "Imm16_IsInUnsignedRange v = (0 \<le> sint v \<and> sint v \<le> 65535)"

definition Imm16_encode :: "32 word \<Rightarrow> 16 word" where
  "Imm16_encode v = ucast v"

section \<open>Immediate materialization\<close>

text \<open>
  \<^verbatim>\<open>MacroAssemblerPPC64::ma_li(Register dest, int64_t value)\<close>. \<open>v\<close> is the 64-bit pattern
  (\<^verbatim>\<open>bits\<close>); \<^verbatim>\<open>value\<close> is its signed reading \<open>sint v\<close>, and \<^verbatim>\<open>value >> 16\<close> the arithmetic
  shift. The pair returned by the middle step carries \<^verbatim>\<open>loweronly\<close>.
\<close>

definition ma_li :: "Register \<Rightarrow> 64 word \<Rightarrow> masm \<Rightarrow> masm" where
  "ma_li dest v m =
    (if - 32769 < sint v \<and> sint v < 32768 then xs_li dest (ucast v) m
     else if v AND 0xffffffff0000ffff = 0 \<or> v AND 0xffffffff0000ffff = 0xffffffff00000000
       then xs_lis dest (ucast (signed_drop_bit 16 v)) m
     else
       let (m1, loweronly) =
             (if v AND 0xffff000000000000 \<noteq> 0 then
                let m' = xs_lis dest (ucast (drop_bit 48 v)) m;
                    m' = (if v AND 0x0000ffff00000000 \<noteq> 0
                          then as_ori dest dest (ucast (drop_bit 32 v AND 0xffff)) m'
                          else m')
                in (as_rldicr dest dest 32 31 m', False)
              else if v AND 0x0000ffff00000000 \<noteq> 0 then
                let m' = xs_li dest (ucast (drop_bit 32 v AND 0xffff)) m
                in (as_rldicr dest dest 32 31 m', False)
              else (m, True));
           bits = v AND 0x00000000ffffffff
       in if bits AND 0xffff0000 \<noteq> 0 then
            let m2 = (if loweronly then xs_lis dest (ucast (drop_bit 16 bits)) m1
                      else as_oris dest dest (ucast (drop_bit 16 bits)) m1)
            in if bits AND 0x0000ffff \<noteq> 0 then as_ori dest dest (ucast (bits AND 0xffff)) m2
               else m2
          else if bits AND 0x0000ffff \<noteq> 0 then
            (if loweronly then xs_li dest (ucast (bits AND 0xffff)) m1
             else as_ori dest dest (ucast (bits AND 0xffff)) m1)
          else m1)"

text \<open>
  \<^verbatim>\<open>ma_li(Register, Imm32)\<close> and \<^verbatim>\<open>ma_li(Register, ImmWord)\<close> convert their operand to 64
  bits and call the function above; an \<^verbatim>\<open>Imm32\<close> holds an \<^verbatim>\<open>int32_t\<close>, which the cast
  sign-extends.
\<close>

definition ma_li_Imm32 :: "Register \<Rightarrow> 32 word \<Rightarrow> masm \<Rightarrow> masm" where
  "ma_li_Imm32 dest imm = ma_li dest (scast imm)"

definition ma_li_ImmWord :: "Register \<Rightarrow> 64 word \<Rightarrow> masm \<Rightarrow> masm" where
  "ma_li_ImmWord dest imm = ma_li dest imm"

text \<open>
  \<^verbatim>\<open>Imm16::Upper\<close> and \<^verbatim>\<open>Imm16::Lower\<close> of an \<^verbatim>\<open>Imm32\<close>: its high and its low halfword
  (the class is declared in the assembler header; the names say what they return).
\<close>

definition Imm16_Upper :: "32 word \<Rightarrow> 16 word" where
  "Imm16_Upper imm = ucast (drop_bit 16 imm)"

definition Imm16_Lower :: "32 word \<Rightarrow> 16 word" where
  "Imm16_Lower imm = ucast imm"

text \<open>\<^verbatim>\<open>MacroAssemblerPPC64::ma_liPatchable(Register dest, ImmWord imm)\<close>.\<close>

definition ma_liPatchable :: "Register \<Rightarrow> 64 word \<Rightarrow> masm \<Rightarrow> masm" where
  "ma_liPatchable dest imm m =
    (let m = xs_lis dest (Imm16_Upper (ucast (drop_bit 32 imm))) m;
         m = as_ori dest dest (Imm16_Lower (ucast (drop_bit 32 imm))) m;
         m = as_rldicr dest dest 32 31 m;
         m = as_oris dest dest (Imm16_Upper (ucast imm)) m;
         m = as_ori dest dest (Imm16_Lower (ucast imm)) m
     in m)"

section \<open>Condition and branch synthesis\<close>

text \<open>
  \<^verbatim>\<open>MacroAssemblerPPC64::ma_bc(CRegisterID cr, T c, Label* label, JumpKind jumpKind)\<close>.
  The label is passed in and returned, since a branch to an unbound label records itself as
  the label's latest use. The result is \<open>None\<close> where \<^verbatim>\<open>MOZ_ASSERT\<close> fails: a short jump
  was demanded for a bound label out of the short range.
\<close>

definition ma_bc :: "CRegisterID \<Rightarrow> Condition \<Rightarrow> Label \<Rightarrow> JumpKind \<Rightarrow> masm \<Rightarrow> (masm \<times> Label) option" where
  "ma_bc cr c label jumpKind m =
    (case label of
       Bound target \<Rightarrow>
         (let offset = int target - int (nextOffset m);
              jumpKind = (if BOffImm16_IsInSignedRange offset then ShortJump else jumpKind)
          in if jumpKind = ShortJump then
               (if BOffImm16_IsInSignedRange offset then Some (as_bc offset c cr m, label)
                else None)
             else
               (let m = as_bc 32 (InvertCondition c) cr m;
                    m = addLongJump (nextOffset m) m;
                    m = ma_liPatchable SecondScratchReg INVALID_OFFSET m;
                    m = xs_mtctr SecondScratchReg m;
                    m = as_bctr DontLinkB m
                in Some (m, label)))
     | _ \<Rightarrow>
         (let nextInChain = (case label of Used off \<Rightarrow> word_of_nat off | _ \<Rightarrow> ucast INVALID_OFFSET)
          in if jumpKind = ShortJump then
               (let bo = nextOffset m;
                    m = as_bc 4 c cr m;
                    m = writeInst (RawWord nextInChain) m
                in Some (m, Used bo))
             else
               (let m = as_bc 32 (InvertCondition c) cr m;
                    bo = nextOffset m;
                    m = xs_trap_tagged LongJumpTag m;
                    m = writeInst (RawWord nextInChain) m;
                    m = as_nop m;
                    m = as_nop m;
                    m = as_nop m;
                    m = as_nop m;
                    m = as_nop m
                in Some (m, Used bo))))"

text \<open>\<^verbatim>\<open>MacroAssemblerPPC64::ma_b(Label* label, JumpKind jumpKind)\<close>.\<close>

definition ma_b :: "Label \<Rightarrow> JumpKind \<Rightarrow> masm \<Rightarrow> masm" where
  "ma_b label jumpKind m =
    (case label of
       Bound target \<Rightarrow>
         (let offset = int (nextOffset m) - int target
          in if jumpKind = ShortJump \<or> JOffImm26_IsInRange offset then as_b offset m
             else
               (let m = addLongJump (nextOffset m) m;
                    m = ma_liPatchable SecondScratchReg INVALID_OFFSET m;
                    m = xs_mtctr SecondScratchReg m
                in as_bctr DontLinkB m))
     | _ \<Rightarrow>
         (if jumpKind = ShortJump then xs_trap_tagged StaticShortJumpTag m
          else
            (let m = ma_liPatchable ScratchRegister INVALID_OFFSET m;
                 m = xs_trap_tagged LongJumpTag m
             in xs_trap m)))"

text \<open>
  \<^verbatim>\<open>MacroAssemblerPPC64::ma_bc(Register lhs, Register rhs, Label* label, Condition c,
  JumpKind jumpKind)\<close>. \<open>None\<close> is a failed assertion.
\<close>

definition ma_bc_rr :: "Register \<Rightarrow> Register \<Rightarrow> Label \<Rightarrow> Condition \<Rightarrow> JumpKind \<Rightarrow> masm \<Rightarrow> (masm \<times> Label) option" where
  "ma_bc_rr lhs rhs label c jumpKind m =
    (if condOnlyXER c then None
     else if c = Always then Some (ma_b label jumpKind m, label)
     else if condZero c then
       (if lhs = rhs then ma_bc cr0 c label jumpKind (as_cmpdi lhs 0 m) else None)
     else if condUnsigned c then ma_bc cr0 c label jumpKind (as_cmpld lhs rhs m)
     else if noModifier c then ma_bc cr0 c label jumpKind (as_cmpd lhs rhs m)
     else None)"

text \<open>
  \<^verbatim>\<open>MacroAssemblerPPC64::ma_bc(Register lhs, Imm32 imm, Label* label, Condition c,
  JumpKind jumpKind)\<close>.
\<close>

definition ma_bc_ri :: "Register \<Rightarrow> 32 word \<Rightarrow> Label \<Rightarrow> Condition \<Rightarrow> JumpKind \<Rightarrow> masm \<Rightarrow> (masm \<times> Label) option" where
  "ma_bc_ri lhs imm label c jumpKind m =
    (if condOnlyXER c then None
     else if c = Always then Some (ma_b label jumpKind m, label)
     else if condZero c then
       (if imm = 0 then ma_bc cr0 c label jumpKind (as_cmpdi lhs 0 m) else None)
     else if condUnsigned c then
       (if Imm16_IsInUnsignedRange imm
        then ma_bc cr0 c label jumpKind (as_cmplwi lhs (ucast imm) m)
        else if lhs \<noteq> ScratchRegister
        then ma_bc cr0 c label jumpKind (as_cmplw lhs ScratchRegister (ma_li_Imm32 ScratchRegister imm m))
        else None)
     else if noModifier c then
       (if Imm16_IsInSignedRange imm
        then ma_bc cr0 c label jumpKind (as_cmpwi lhs (ucast imm) m)
        else if lhs \<noteq> ScratchRegister
        then ma_bc cr0 c label jumpKind (as_cmpw lhs ScratchRegister (ma_li_Imm32 ScratchRegister imm m))
        else None)
     else None)"

text \<open>
  \<^verbatim>\<open>MacroAssemblerPPC64::ma_cmp_set(Register rd, Register rs, Register rt, Condition c)\<close>.
  \<open>None\<close> is \<^verbatim>\<open>MOZ_CRASH("Invalid condition.")\<close>.
\<close>

definition cmp_set_shift :: "Condition \<Rightarrow> nat option" where
  "cmp_set_shift c =
    (if c = Equal \<or> c = NotEqual then Some 2
     else if c = Above then Some 1
     else if c = AboveOrEqual \<or> c = GreaterThanOrEqual \<or> c = Below \<or> c = LessThan then Some 3
     else if c = BelowOrEqual \<or> c = LessThanOrEqual \<or> c = GreaterThan then Some 1
     else None)"

definition ma_cmp_set :: "Register \<Rightarrow> Register \<Rightarrow> Register \<Rightarrow> Condition \<Rightarrow> masm \<Rightarrow> masm option" where
  "ma_cmp_set rd rs rt c m =
    (let m = as_mfcr rd m
     in case cmp_set_shift c of
          None \<Rightarrow> None
        | Some shift \<Rightarrow>
            (let m = as_cmpd rs rt m;
                 m = as_mfcr rd m;
                 m = as_rlwinm rd rd ((3 - shift) + 28) 30 31 m
             in if c = NotEqual \<or> c = AboveOrEqual \<or> c = GreaterThanOrEqual
                   \<or> c = LessThanOrEqual \<or> c = BelowOrEqual
                then Some (as_xori rd rd 1 m)
                else Some m))"

section \<open>Memory operand resolution\<close>

record Address =
  base :: Register
  offset :: "32 word"

datatype LoadStoreSize = SizeByte | SizeHalfWord | SizeWord | SizeDouble

datatype LoadStoreExtension = ZeroExtend | SignExtend

text \<open>
  \<^verbatim>\<open>MacroAssemblerPPC64::ma_load(Register dest, Address address, LoadStoreSize size,
  LoadStoreExtension extension)\<close>. \<open>None\<close> is the failed assertion that the base is not the
  second scratch register. The enumerations have no other values, so the \<^verbatim>\<open>default\<close>
  case of the switch and the assertion on \<^verbatim>\<open>extension\<close> have no counterpart.
\<close>

definition ma_load :: "Register \<Rightarrow> Address \<Rightarrow> LoadStoreSize \<Rightarrow> LoadStoreExtension \<Rightarrow> masm \<Rightarrow> masm option" where
  "ma_load dest address sz extension m =
    (case (if \<not> Imm16_IsInSignedRange (offset address) \<or> base address = ScratchRegister then
             (if base address \<noteq> SecondScratchReg then
                (let m = ma_li_Imm32 SecondScratchReg (offset address) m;
                     m = as_add SecondScratchReg (base address) SecondScratchReg m
                 in Some (m, SecondScratchReg, 0))
              else None)
           else Some (m, base address, Imm16_encode (offset address))) of
       None \<Rightarrow> None
     | Some (m, baseReg, encodedOffset) \<Rightarrow>
         Some (case sz of
                 SizeByte \<Rightarrow>
                   (let m = as_lbz dest baseReg encodedOffset m
                    in if extension = SignExtend then as_extsb dest dest m else m)
               | SizeHalfWord \<Rightarrow>
                   (let m = as_lhz dest baseReg encodedOffset m
                    in if extension = SignExtend then as_extsh dest dest m else m)
               | SizeWord \<Rightarrow>
                   (let m = as_lwz dest baseReg encodedOffset m
                    in if extension = SignExtend then as_extsw dest dest m else m)
               | SizeDouble \<Rightarrow> as_ld dest baseReg encodedOffset m))"

text \<open>
  \<^verbatim>\<open>MacroAssemblerPPC64::ma_store(Register data, Address address, LoadStoreSize size,
  LoadStoreExtension extension)\<close>.
\<close>

definition ma_store :: "Register \<Rightarrow> Address \<Rightarrow> LoadStoreSize \<Rightarrow> LoadStoreExtension \<Rightarrow> masm \<Rightarrow> masm option" where
  "ma_store data address sz extension m =
    (case (if \<not> Imm16_IsInSignedRange (offset address) \<or> base address = ScratchRegister then
             (if base address \<noteq> SecondScratchReg then
                (let m = ma_li_Imm32 SecondScratchReg (offset address) m;
                     m = as_add SecondScratchReg (base address) SecondScratchReg m
                 in Some (m, SecondScratchReg, 0))
              else None)
           else Some (m, base address, Imm16_encode (offset address))) of
       None \<Rightarrow> None
     | Some (m, baseReg, encodedOffset) \<Rightarrow>
         Some (case sz of
                 SizeByte \<Rightarrow> as_stb data baseReg encodedOffset m
               | SizeHalfWord \<Rightarrow> as_sth data baseReg encodedOffset m
               | SizeWord \<Rightarrow> as_stw data baseReg encodedOffset m
               | SizeDouble \<Rightarrow> as_std data baseReg encodedOffset m))"

section \<open>Overflow-testing arithmetic\<close>

text \<open>
  \<^verbatim>\<open>MacroAssemblerPPC64::ma_addTestOverflow(Register rd, Register rs, Register rt,
  Label* overflow)\<close> and its \<^verbatim>\<open>Imm32\<close> overload, and \<^verbatim>\<open>ma_subTestOverflow\<close>. The branch
  is \<^verbatim>\<open>ma_bc(Assembler::SOBit, overflow)\<close>, i.e. \<^verbatim>\<open>ma_bc(cr0, SOBit, overflow, jumpKind)\<close>
  with the default jump kind of the declaration in the header; the header is not among the
  sources, so the default is the parameter \<open>jumpKind\<close>.
\<close>

definition ma_addTestOverflow :: "JumpKind \<Rightarrow> Register \<Rightarrow> Register \<Rightarrow> Register \<Rightarrow> Label \<Rightarrow> masm \<Rightarrow> (masm \<times> Label) option" where
  "ma_addTestOverflow jumpKind rd rs rt overflow m =
    (if rs \<noteq> ScratchRegister \<and> rt \<noteq> ScratchRegister then
       (let m = xs_li ScratchRegister 0 m;
            m = xs_mtxer ScratchRegister m;
            m = as_addo_rc rd rs rt m
        in ma_bc cr0 SOBit overflow jumpKind m)
     else None)"

definition ma_addTestOverflow_Imm32 :: "JumpKind \<Rightarrow> Register \<Rightarrow> Register \<Rightarrow> 32 word \<Rightarrow> Label \<Rightarrow> masm \<Rightarrow> (masm \<times> Label) option" where
  "ma_addTestOverflow_Imm32 jumpKind rd rs imm overflow m =
    (let m = ma_li_Imm32 SecondScratchReg imm m
     in ma_addTestOverflow jumpKind rd rs SecondScratchReg overflow m)"

definition ma_subTestOverflow :: "JumpKind \<Rightarrow> Register \<Rightarrow> Register \<Rightarrow> Register \<Rightarrow> Label \<Rightarrow> masm \<Rightarrow> (masm \<times> Label) option" where
  "ma_subTestOverflow jumpKind rd rs rt overflow m =
    (if rs \<noteq> ScratchRegister \<and> rt \<noteq> ScratchRegister then
       (let m = xs_li ScratchRegister 0 m;
            m = xs_mtxer ScratchRegister m;
            m = as_subfo_rc rd rt rs m
        in ma_bc cr0 SOBit overflow jumpKind m)
     else None)"

section \<open>Control transfer\<close>

text \<open>
  \<^verbatim>\<open>MacroAssemblerPPC64Compat::toggledCall(JitCode* target, bool enabled)\<close>. \<open>target\<close> is
  the raw code address. \<^verbatim>\<open>ToggledCallSize\<close> is declared in the assembler header, which is
  not among the sources: the size it returns is the parameter \<open>toggledCallSize\<close>. The
  result is \<open>None\<close> where the closing assertion fails, else the new state and the returned
  code offset.
\<close>

definition toggledCall_body :: "64 word \<Rightarrow> bool \<Rightarrow> masm \<Rightarrow> masm" where
  "toggledCall_body target enabled m =
    (let bo = nextOffset m;
         m = addPendingJump bo target JITCODE m;
         m = ma_liPatchable ScratchRegister target m
     in if enabled then
          (let m = xs_mtctr ScratchRegister m;
               m = as_bctr LinkB m
           in as_nop m)
        else
          (let m = as_nop m
           in as_nop m))"

definition toggledCall :: "nat \<Rightarrow> 64 word \<Rightarrow> bool \<Rightarrow> masm \<Rightarrow> (masm \<times> nat) option" where
  "toggledCall toggledCallSize target enabled m =
    (let offset = nextOffset m;
         m' = toggledCall_body target enabled m
     in if nextOffset m' - offset = toggledCallSize then Some (m', offset) else None)"

section \<open>Moves\<close>

text \<open>\<^verbatim>\<open>MacroAssemblerPPC64::ma_move\<close>, \<^verbatim>\<open>ma_xor\<close> and \<^verbatim>\<open>MacroAssembler::move64To32\<close>.\<close>

definition ma_move :: "Register \<Rightarrow> Register \<Rightarrow> masm \<Rightarrow> masm" where
  "ma_move rd rs = as_or rd rs rs"

definition ma_xor :: "Register \<Rightarrow> Register \<Rightarrow> masm \<Rightarrow> masm" where
  "ma_xor rd rs = as_xor rd rd rs"

definition movePtr :: "Register \<Rightarrow> Register \<Rightarrow> masm \<Rightarrow> masm" where
  "movePtr src dest = ma_move dest src"

definition movePtr_ImmWord :: "64 word \<Rightarrow> Register \<Rightarrow> masm \<Rightarrow> masm" where
  "movePtr_ImmWord imm dest = ma_li_ImmWord dest imm"

definition move64To32 :: "Register \<Rightarrow> Register \<Rightarrow> masm \<Rightarrow> masm" where
  "move64To32 src dest = as_or dest src src"

section \<open>Value unboxing\<close>

text \<open>
  Modelled from the spec: the tagged value encoding of the runtime (its public value
  header is not among the sources): a 64-bit value keeps its type tag in the bits from
  \<open>JSVAL_TAG_SHIFT\<close> upward and its payload below; the tag of a non-double type is
  \<open>JSVAL_TAG_MAX_DOUBLE\<close> OR the type code.
\<close>

datatype JSValueType =
    JSVAL_TYPE_DOUBLE | JSVAL_TYPE_INT32 | JSVAL_TYPE_BOOLEAN | JSVAL_TYPE_UNDEFINED
  | JSVAL_TYPE_NULL | JSVAL_TYPE_MAGIC | JSVAL_TYPE_STRING | JSVAL_TYPE_SYMBOL
  | JSVAL_TYPE_PRIVATE_GCTHING | JSVAL_TYPE_BIGINT | JSVAL_TYPE_OBJECT

fun typeCode :: "JSValueType \<Rightarrow> 64 word" where
  "typeCode JSVAL_TYPE_DOUBLE = 0x00"
| "typeCode JSVAL_TYPE_INT32 = 0x01"
| "typeCode JSVAL_TYPE_BOOLEAN = 0x02"
| "typeCode JSVAL_TYPE_UNDEFINED = 0x03"
| "typeCode JSVAL_TYPE_NULL = 0x04"
| "typeCode JSVAL_TYPE_MAGIC = 0x05"
| "typeCode JSVAL_TYPE_STRING = 0x06"
| "typeCode JSVAL_TYPE_SYMBOL = 0x07"
| "typeCode JSVAL_TYPE_PRIVATE_GCTHING = 0x08"
| "typeCode JSVAL_TYPE_BIGINT = 0x09"
| "typeCode JSVAL_TYPE_OBJECT = 0x0c"

definition JSVAL_TAG_SHIFT :: nat where
  "JSVAL_TAG_SHIFT = 47"

definition JSVAL_TAG_MAX_DOUBLE :: "64 word" where
  "JSVAL_TAG_MAX_DOUBLE = 0x1FFF0"

definition JSVAL_TYPE_TO_SHIFTED_TAG :: "JSValueType \<Rightarrow> 64 word" where
  "JSVAL_TYPE_TO_SHIFTED_TAG t = push_bit JSVAL_TAG_SHIFT (JSVAL_TAG_MAX_DOUBLE OR typeCode t)"

text \<open>
  \<^verbatim>\<open>MacroAssembler::fallibleUnboxPtr(const ValueOperand& src, Register dest,
  JSValueType type, Label* fail)\<close>. The scratch register scope yields \<open>ScratchRegister\<close>;
  \<^verbatim>\<open>mov(ImmWord, Register)\<close> is \<^verbatim>\<open>movePtr\<close>. The closing \<^verbatim>\<open>ma_bc\<close> takes the default jump
  kind of its declaration, here the parameter \<open>jumpKind\<close>. \<open>None\<close> is a failed assertion.
\<close>

definition fallibleUnboxPtr :: "JumpKind \<Rightarrow> Register \<Rightarrow> Register \<Rightarrow> JSValueType \<Rightarrow> Label \<Rightarrow> masm \<Rightarrow> (masm \<times> Label) option" where
  "fallibleUnboxPtr jumpKind src dest type fail m =
    (if type = JSVAL_TYPE_OBJECT \<or> type = JSVAL_TYPE_STRING \<or> type = JSVAL_TYPE_SYMBOL
        \<or> type = JSVAL_TYPE_BIGINT then
       (let scratch = ScratchRegister;
            m = movePtr_ImmWord (JSVAL_TYPE_TO_SHIFTED_TAG type) scratch m;
            m = ma_xor scratch src m;
            m = ma_move dest scratch m;
            m = x_srdi scratch scratch JSVAL_TAG_SHIFT m
        in ma_bc_ri scratch 0 fail NotEqual jumpKind m)
     else None)"

section \<open>Atomic read-modify-write sequences\<close>

text \<open>
  Modelled from the spec: \<^verbatim>\<open>Synchronization\<close> and \<^verbatim>\<open>memoryBarrierBefore\<close> /
  \<^verbatim>\<open>memoryBarrierAfter\<close> of the generic macro assembler, which pass the barrier bits of
  the requested synchronization to \<^verbatim>\<open>memoryBarrier\<close>. \<^verbatim>\<open>MacroAssembler::memoryBarrier\<close> is
  in the sources: it emits \<^verbatim>\<open>lwsync\<close> whatever the bits.
\<close>

record Synchronization =
  barrierBefore :: nat
  barrierAfter :: nat

definition memoryBarrier :: "nat \<Rightarrow> masm \<Rightarrow> masm" where
  "memoryBarrier barrier = as_lwsync"

definition memoryBarrierBefore :: "Synchronization \<Rightarrow> masm \<Rightarrow> masm" where
  "memoryBarrierBefore sync = memoryBarrier (barrierBefore sync)"

definition memoryBarrierAfter :: "Synchronization \<Rightarrow> masm \<Rightarrow> masm" where
  "memoryBarrierAfter sync = memoryBarrier (barrierAfter sync)"

text \<open>
  Modelled from the spec: \<^verbatim>\<open>Assembler::bind(Label*)\<close> (assembler source, not among the
  sources). Binding gives the label the next offset of the buffer and patches every use on
  its chain. Only the short form of a use is modelled, the one the atomic sequences
  create: the dummy branch receives the real displacement and the chain word behind it
  becomes a no-op (\<^verbatim>\<open>ma_bc\<close>: "we just have to change the offset at link time", "we end up
  burning a nop at link time"). \<open>None\<close> is a label already bound, a chain that holds
  another form of use, or a displacement out of the short range.
\<close>

fun patchUses :: "nat \<Rightarrow> nat \<Rightarrow> nat \<Rightarrow> instr list \<Rightarrow> instr list option" where
  "patchUses 0 target site buf = None"
| "patchUses (Suc fuel) target site buf =
    (let i = site div 4
     in if i + 1 < length buf then
          (case (buf ! i, buf ! (i + 1)) of
             (Bc d c crn, RawWord next) \<Rightarrow>
               (if BOffImm16_IsInSignedRange (int target - int site) then
                  (let buf' = buf[i := Bc (int target - int site) c crn, i + 1 := Nop]
                   in if next = ucast INVALID_OFFSET then Some buf'
                      else patchUses fuel target (unat next) buf')
                else None)
           | _ \<Rightarrow> None)
        else None)"

definition bind_label :: "Label \<Rightarrow> masm \<Rightarrow> (masm \<times> Label) option" where
  "bind_label label m =
    (case label of
       Unused \<Rightarrow> Some (m, Bound (nextOffset m))
     | Used head \<Rightarrow>
         (case patchUses (length (buffer m)) (nextOffset m) head (buffer m) of
            None \<Rightarrow> None
          | Some buf \<Rightarrow> Some (m\<lparr>buffer := buf\<rparr>, Bound (nextOffset m)))
     | Bound target \<Rightarrow> None)"

text \<open>
  \<^verbatim>\<open>CompareExchange64\<close> (the template behind \<^verbatim>\<open>MacroAssembler::compareExchange64\<close>).
  \<^verbatim>\<open>computeEffectiveAddress\<close> is declared in the header, which is not among the sources:
  the call \<^verbatim>\<open>masm.computeEffectiveAddress(mem, \<dots>)\<close> is the parameter of that name, applied
  to the destination register. An operand \<^verbatim>\<open>r0\<close> in the \<^verbatim>\<open>ra\<close> position is register code 0.
\<close>

definition CompareExchange64 :: "(Register \<Rightarrow> masm \<Rightarrow> masm) \<Rightarrow> Synchronization \<Rightarrow> Register \<Rightarrow> Register \<Rightarrow> Register \<Rightarrow> masm \<Rightarrow> masm option" where
  "CompareExchange64 computeEffectiveAddress sync expect replace output m =
    do {
      let m = computeEffectiveAddress SecondScratchReg m;
      let tryAgain = Unused;
      let exit = Unused;
      let m = memoryBarrierBefore sync m;
      (m, tryAgain) \<leftarrow> bind_label tryAgain m;
      let m = as_ldarx output 0 SecondScratchReg m;
      (m, exit) \<leftarrow> ma_bc_rr output expect exit NotEqual ShortJump m;
      let m = movePtr replace ScratchRegister m;
      let m = as_stdcx ScratchRegister 0 SecondScratchReg m;
      (m, tryAgain) \<leftarrow> ma_bc_rr ScratchRegister ScratchRegister tryAgain NotEqual ShortJump m;
      let m = memoryBarrierAfter sync m;
      (m, exit) \<leftarrow> bind_label exit m;
      Some m
    }"

text \<open>
  \<^verbatim>\<open>AtomicExchange64\<close>, the sibling of the function above whose retry branch tests the
  condition register field that the store-conditional has just set.
\<close>

definition AtomicExchange64 :: "(Register \<Rightarrow> masm \<Rightarrow> masm) \<Rightarrow> Synchronization \<Rightarrow> Register \<Rightarrow> Register \<Rightarrow> masm \<Rightarrow> masm option" where
  "AtomicExchange64 computeEffectiveAddress sync src output m =
    do {
      let m = computeEffectiveAddress SecondScratchReg m;
      let tryAgain = Unused;
      let m = memoryBarrierBefore sync m;
      (m, tryAgain) \<leftarrow> bind_label tryAgain m;
      let m = as_ldarx output 0 SecondScratchReg m;
      let m = as_stdcx src 0 SecondScratchReg m;
      (m, tryAgain) \<leftarrow> ma_bc cr0 NotEqual tryAgain ShortJump m;
      let m = memoryBarrierAfter sync m;
      Some m
    }"

text \<open>\<^verbatim>\<open>AtomicFetchOp64\<close> (behind \<^verbatim>\<open>MacroAssembler::atomicFetchOp64\<close>).\<close>

datatype AtomicOp =
  AtomicFetchAddOp | AtomicFetchSubOp | AtomicFetchAndOp | AtomicFetchOrOp | AtomicFetchXorOp

definition AtomicFetchOp64 :: "(Register \<Rightarrow> masm \<Rightarrow> masm) \<Rightarrow> Synchronization \<Rightarrow> AtomicOp \<Rightarrow> Register \<Rightarrow> Register \<Rightarrow> Register \<Rightarrow> masm \<Rightarrow> masm option" where
  "AtomicFetchOp64 computeEffectiveAddress sync op val temp output m =
    do {
      let m = computeEffectiveAddress SecondScratchReg m;
      let tryAgain = Unused;
      let m = memoryBarrierBefore sync m;
      (m, tryAgain) \<leftarrow> bind_label tryAgain m;
      let m = as_ldarx output 0 SecondScratchReg m;
      let m = (case op of
                 AtomicFetchAddOp \<Rightarrow> as_add temp output val m
               | AtomicFetchSubOp \<Rightarrow> as_subf temp val output m
               | AtomicFetchAndOp \<Rightarrow> as_and temp output val m
               | AtomicFetchOrOp \<Rightarrow> as_or temp output val m
               | AtomicFetchXorOp \<Rightarrow> as_xor temp output val m);
      let m = as_stdcx temp 0 SecondScratchReg m;
      (m, tryAgain) \<leftarrow> ma_bc_rr temp temp tryAgain NotEqual ShortJump m;
      let m = memoryBarrierAfter sync m;
      Some m
    }"

text \<open>
  \<^verbatim>\<open>CompareExchange\<close> (behind \<^verbatim>\<open>MacroAssembler::compareExchange\<close>) for one, two and four
  bytes. \<^verbatim>\<open>Scalar::byteSize\<close>, \<^verbatim>\<open>Scalar::isSignedIntType\<close> and \<^verbatim>\<open>InvalidReg\<close> come from
  outside the sources; they are given for the integer element types. \<open>None\<close> is
  \<^verbatim>\<open>MOZ_CRASH\<close> for any other size, or a failed assertion. The target is little-endian, so
  the \<^verbatim>\<open>xori\<close> under \<^verbatim>\<open>#if !MOZ_LITTLE_ENDIAN\<close> is not emitted.
\<close>

datatype ScalarType = Int8 | Uint8 | Int16 | Uint16 | Int32 | Uint32 | Int64

fun byteSize :: "ScalarType \<Rightarrow> nat" where
  "byteSize Int8 = 1" | "byteSize Uint8 = 1"
| "byteSize Int16 = 2" | "byteSize Uint16 = 2"
| "byteSize Int32 = 4" | "byteSize Uint32 = 4"
| "byteSize Int64 = 8"

fun isSignedIntType :: "ScalarType \<Rightarrow> bool" where
  "isSignedIntType Int8 = True" | "isSignedIntType Int16 = True"
| "isSignedIntType Int32 = True" | "isSignedIntType Int64 = True"
| "isSignedIntType _ = False"

definition InvalidReg :: Register where
  "InvalidReg = 32"

definition subPtr :: "Register \<Rightarrow> Register \<Rightarrow> masm \<Rightarrow> masm" where
  "subPtr src dest = as_subf dest src dest"

definition CompareExchange :: "(Register \<Rightarrow> masm \<Rightarrow> masm) \<Rightarrow> ScalarType \<Rightarrow> Synchronization \<Rightarrow> Register \<Rightarrow> Register \<Rightarrow> Register \<Rightarrow> Register \<Rightarrow> Register \<Rightarrow> Register \<Rightarrow> masm \<Rightarrow> masm option" where
  "CompareExchange computeEffectiveAddress type sync oldval newval valueTemp offsetTemp maskTemp output m =
    (let signExtend = isSignedIntType type;
         nbytes = byteSize type
     in if nbytes = 4 \<and> (valueTemp \<noteq> InvalidReg \<or> offsetTemp \<noteq> InvalidReg \<or> maskTemp \<noteq> InvalidReg)
        then None
        else if nbytes \<noteq> 1 \<and> nbytes \<noteq> 2 \<and> nbytes \<noteq> 4 then None
        else
          (let again = Unused;
               endLabel = Unused;
               m = computeEffectiveAddress SecondScratchReg m
           in if nbytes = 4 then
                do {
                  let m = memoryBarrierBefore sync m;
                  (m, again) \<leftarrow> bind_label again m;
                  let m = as_lwarx output 0 SecondScratchReg m;
                  (m, endLabel) \<leftarrow> ma_bc_rr output oldval endLabel NotEqual ShortJump m;
                  let m = as_stwcx newval 0 SecondScratchReg m;
                  (m, again) \<leftarrow> ma_bc cr0 NotEqual again ShortJump m;
                  let m = memoryBarrierAfter sync m;
                  (m, endLabel) \<leftarrow> bind_label endLabel m;
                  Some m
                }
              else
                do {
                  let m = as_andi_rc offsetTemp SecondScratchReg 3 m;
                  let m = subPtr offsetTemp SecondScratchReg m;
                  let m = x_slwi offsetTemp offsetTemp 3 m;
                  let m = ma_li_Imm32 maskTemp (drop_bit ((4 - nbytes) * 8) 0xffffffff) m;
                  let m = as_slw maskTemp maskTemp offsetTemp m;
                  let m = as_nor maskTemp maskTemp maskTemp m;
                  let m = memoryBarrierBefore sync m;
                  (m, again) \<leftarrow> bind_label again m;
                  let m = as_lwarx ScratchRegister 0 SecondScratchReg m;
                  let m = as_srw output ScratchRegister offsetTemp m;
                  let m = (if nbytes = 1 then
                             (if signExtend then as_extsb output output (as_extsb valueTemp oldval m)
                              else as_andi_rc output output 0xff (as_andi_rc valueTemp oldval 0xff m))
                           else
                             (if signExtend then as_extsh output output (as_extsh valueTemp oldval m)
                              else as_andi_rc output output 0xffff (as_andi_rc valueTemp oldval 0xffff m)));
                  (m, endLabel) \<leftarrow> ma_bc_rr output valueTemp endLabel NotEqual ShortJump m;
                  let m = as_slw valueTemp newval offsetTemp m;
                  let m = as_and ScratchRegister ScratchRegister maskTemp m;
                  let m = as_or ScratchRegister ScratchRegister valueTemp m;
                  let m = as_stwcx ScratchRegister 0 SecondScratchReg m;
                  (m, again) \<leftarrow> ma_bc_rr ScratchRegister ScratchRegister again Zero ShortJump m;
                  let m = memoryBarrierAfter sync m;
                  (m, endLabel) \<leftarrow> bind_label endLabel m;
                  Some m
                }))"

section \<open>The machine: what an emitted word does\<close>

text \<open>
  The registers of the machine the emitted code runs on, as far as the embedded sequences
  touch them: the general purpose registers, the eight 4-bit fields of the condition
  register, the overflow bits of XER, the count and link registers, the address of the
  next instruction, byte-addressed memory and the reservation of load-reserve /
  store-conditional. The meaning of each instruction is that of the Power ISA (64-bit
  mode).
\<close>

datatype crfield = CRF (crLT: bool) (crGT: bool) (crEQ: bool) (crSO: bool)

record machine =
  gpr :: "Register \<Rightarrow> 64 word"
  cr :: "CRegisterID \<Rightarrow> crfield"
  xerSO :: bool
  xerOV :: bool
  xerCA :: bool
  ctr :: "64 word"
  lr :: "64 word"
  pc :: int
  mem :: "64 word \<Rightarrow> 8 word"
  reservation :: "64 word option"

definition setReg :: "Register \<Rightarrow> 64 word \<Rightarrow> machine \<Rightarrow> machine" where
  "setReg r v s = s\<lparr>gpr := (gpr s)(r := v)\<rparr>"

definition setCR :: "CRegisterID \<Rightarrow> crfield \<Rightarrow> machine \<Rightarrow> machine" where
  "setCR n f s = s\<lparr>cr := (cr s)(n := f)\<rparr>"

definition advance :: "machine \<Rightarrow> machine" where
  "advance s = s\<lparr>pc := pc s + 4\<rparr>"

text \<open>An operand written \<open>(RA|0)\<close> in the ISA: register 0 reads as the constant zero.\<close>

definition regOrZero :: "machine \<Rightarrow> Register \<Rightarrow> 64 word" where
  "regOrZero s ra = (if ra = 0 then 0 else gpr s ra)"

definition signedCompare :: "int \<Rightarrow> int \<Rightarrow> bool \<Rightarrow> crfield" where
  "signedCompare a b so = CRF (a < b) (b < a) (a = b) so"

text \<open>Little-endian access to \<open>n\<close> bytes of memory.\<close>

fun readMem :: "nat \<Rightarrow> (64 word \<Rightarrow> 8 word) \<Rightarrow> 64 word \<Rightarrow> 64 word" where
  "readMem 0 mm a = 0"
| "readMem (Suc n) mm a = ucast (mm a) OR push_bit 8 (readMem n mm (a + 1))"

fun writeMem :: "nat \<Rightarrow> (64 word \<Rightarrow> 8 word) \<Rightarrow> 64 word \<Rightarrow> 64 word \<Rightarrow> (64 word \<Rightarrow> 8 word)" where
  "writeMem 0 mm a v = mm"
| "writeMem (Suc n) mm a v = writeMem n (mm(a := ucast v)) (a + 1) (drop_bit 8 v)"

fun accessSize :: "DOp \<Rightarrow> nat" where
  "accessSize LBZ = 1" | "accessSize STB = 1"
| "accessSize LHZ = 2" | "accessSize STH = 2"
| "accessSize LWZ = 4" | "accessSize STW = 4"
| "accessSize LD = 8" | "accessSize STD = 8"
| "accessSize _ = 0"

definition execDForm :: "DOp \<Rightarrow> Register \<Rightarrow> Register \<Rightarrow> 16 word \<Rightarrow> machine \<Rightarrow> machine" where
  "execDForm op r1 r2 im s =
    (case op of
       ADDI \<Rightarrow> setReg r1 (regOrZero s r2 + scast im) s
     | ADDIS \<Rightarrow> setReg r1 (regOrZero s r2 + push_bit 16 (scast im)) s
     | ORI \<Rightarrow> setReg r1 (gpr s r2 OR ucast im) s
     | ORIS \<Rightarrow> setReg r1 (gpr s r2 OR push_bit 16 (ucast im)) s
     | XORI \<Rightarrow> setReg r1 (gpr s r2 XOR ucast im) s
     | ANDI_RC \<Rightarrow>
         (let v = gpr s r2 AND ucast im
          in setCR 0 (signedCompare (sint v) 0 (xerSO s)) (setReg r1 v s))
     | LBZ \<Rightarrow> setReg r1 (readMem 1 (mem s) (regOrZero s r2 + scast im)) s
     | LHZ \<Rightarrow> setReg r1 (readMem 2 (mem s) (regOrZero s r2 + scast im)) s
     | LWZ \<Rightarrow> setReg r1 (readMem 4 (mem s) (regOrZero s r2 + scast im)) s
     | LD \<Rightarrow> setReg r1 (readMem 8 (mem s) (regOrZero s r2 + scast im)) s
     | _ \<Rightarrow> s\<lparr>mem := writeMem (accessSize op) (mem s) (regOrZero s r2 + scast im) (gpr s r1)\<rparr>)"

text \<open>
  \<open>addo.\<close> and \<open>subfo.\<close> set XER[OV] to the signed overflow of this operation (the
  64-bit result read as a signed number is not the sum, or difference, of the operands
  read as signed numbers), OR it into the sticky XER[SO], and copy the new XER[SO] into
  CR0[SO]. A store-conditional succeeds
  exactly when the reservation is for its address; it records success in CR0[EQ].
\<close>

definition addOverflows :: "64 word \<Rightarrow> 64 word \<Rightarrow> bool" where
  "addOverflows a b = (sint a + sint b \<noteq> sint (a + b))"

definition subOverflows :: "64 word \<Rightarrow> 64 word \<Rightarrow> bool" where
  "subOverflows a b = (sint a - sint b \<noteq> sint (a - b))"

definition recordOverflow :: "Register \<Rightarrow> 64 word \<Rightarrow> bool \<Rightarrow> machine \<Rightarrow> machine" where
  "recordOverflow rt v ov s =
    (let so = (xerSO s \<or> ov)
     in setCR 0 (signedCompare (sint v) 0 so) (setReg rt v (s\<lparr>xerOV := ov, xerSO := so\<rparr>)))"

definition storeConditional :: "nat \<Rightarrow> Register \<Rightarrow> 64 word \<Rightarrow> machine \<Rightarrow> machine" where
  "storeConditional n rs ea s =
    (if reservation s = Some ea
     then setCR 0 (CRF False False True (xerSO s))
            (s\<lparr>mem := writeMem n (mem s) ea (gpr s rs), reservation := None\<rparr>)
     else setCR 0 (CRF False False False (xerSO s)) (s\<lparr>reservation := None\<rparr>))"

definition shiftAmount :: "64 word \<Rightarrow> nat" where
  "shiftAmount v = unat (v AND 0x3f)"

definition execXForm :: "XOp \<Rightarrow> Register \<Rightarrow> Register \<Rightarrow> Register \<Rightarrow> machine \<Rightarrow> machine" where
  "execXForm op r1 r2 r3 s =
    (case op of
       ADD \<Rightarrow> setReg r1 (gpr s r2 + gpr s r3) s
     | SUBF \<Rightarrow> setReg r1 (gpr s r3 - gpr s r2) s
     | AND_RR \<Rightarrow> setReg r1 (gpr s r2 AND gpr s r3) s
     | OR_RR \<Rightarrow> setReg r1 (gpr s r2 OR gpr s r3) s
     | XOR_RR \<Rightarrow> setReg r1 (gpr s r2 XOR gpr s r3) s
     | NOR_RR \<Rightarrow> setReg r1 (NOT (gpr s r2 OR gpr s r3)) s
     | ADDO_RC \<Rightarrow> recordOverflow r1 (gpr s r2 + gpr s r3) (addOverflows (gpr s r2) (gpr s r3)) s
     | SUBFO_RC \<Rightarrow> recordOverflow r1 (gpr s r3 - gpr s r2) (subOverflows (gpr s r3) (gpr s r2)) s
     | SLW \<Rightarrow>
         setReg r1 (ucast (push_bit (shiftAmount (gpr s r3)) (ucast (gpr s r2) :: 32 word))) s
     | SRW \<Rightarrow>
         setReg r1 (ucast (drop_bit (shiftAmount (gpr s r3)) (ucast (gpr s r2) :: 32 word))) s
     | LDARX \<Rightarrow>
         (let ea = regOrZero s r2 + gpr s r3
          in setReg r1 (readMem 8 (mem s) ea) (s\<lparr>reservation := Some ea\<rparr>))
     | LWARX \<Rightarrow>
         (let ea = regOrZero s r2 + gpr s r3
          in setReg r1 (readMem 4 (mem s) ea) (s\<lparr>reservation := Some ea\<rparr>))
     | STDCX \<Rightarrow> storeConditional 8 r1 (regOrZero s r2 + gpr s r3) s
     | STWCX \<Rightarrow> storeConditional 4 r1 (regOrZero s r2 + gpr s r3) s)"

definition lowWord :: "64 word \<Rightarrow> 32 word" where
  "lowWord v = ucast v"

definition execCmp :: "CmpOp \<Rightarrow> 64 word \<Rightarrow> 64 word \<Rightarrow> machine \<Rightarrow> machine" where
  "execCmp op a b s =
    (case op of
       CMPD \<Rightarrow> setCR 0 (signedCompare (sint a) (sint b) (xerSO s)) s
     | CMPLD \<Rightarrow> setCR 0 (signedCompare (uint a) (uint b) (xerSO s)) s
     | CMPW \<Rightarrow> setCR 0 (signedCompare (sint (lowWord a)) (sint (lowWord b)) (xerSO s)) s
     | CMPLW \<Rightarrow> setCR 0 (signedCompare (uint (lowWord a)) (uint (lowWord b)) (xerSO s)) s)"

text \<open>
  The immediate of a signed compare (\<open>cmpdi\<close>, \<open>cmpwi\<close>) is sign-extended, that of an
  unsigned compare (\<open>cmpldi\<close>, \<open>cmplwi\<close>) zero-extended.
\<close>

definition cmpImmediate :: "CmpOp \<Rightarrow> 16 word \<Rightarrow> 64 word" where
  "cmpImmediate op im = (if op = CMPD \<or> op = CMPW then scast im else ucast im)"

definition execExt :: "ExtOp \<Rightarrow> 64 word \<Rightarrow> 64 word" where
  "execExt op v =
    (case op of
       EXTSB \<Rightarrow> scast (ucast v :: 8 word)
     | EXTSH \<Rightarrow> scast (ucast v :: 16 word)
     | EXTSW \<Rightarrow> scast (ucast v :: 32 word))"

text \<open>
  What a conditional branch tests: the bit of the named condition register field that the
  comparator selects, with the comparator's sense. The modifiers play no part.
\<close>

fun comparatorHolds :: "Comparator \<Rightarrow> crfield \<Rightarrow> bool" where
  "comparatorHolds CmpEqual f = crEQ f"
| "comparatorHolds CmpNotEqual f = (\<not> crEQ f)"
| "comparatorHolds CmpLessThan f = crLT f"
| "comparatorHolds CmpGreaterThanOrEqual f = (\<not> crLT f)"
| "comparatorHolds CmpGreaterThan f = crGT f"
| "comparatorHolds CmpLessThanOrEqual f = (\<not> crGT f)"
| "comparatorHolds CmpSOBit f = crSO f"
| "comparatorHolds CmpNSOBit f = (\<not> crSO f)"
| "comparatorHolds CmpAlways f = True"

definition branchTaken :: "Condition \<Rightarrow> CRegisterID \<Rightarrow> machine \<Rightarrow> bool" where
  "branchTaken c crn s = comparatorHolds (comparator c) (cr s crn)"

text \<open>
  One instruction. The result is \<open>None\<close> for a word that is no instruction (a trap, a
  chain word of an unbound label), for a branch on an XER-only condition (which the
  assembler expands into more than the branch) and for \<open>mfcr\<close> and \<open>rlwinm\<close>, which no
  sequence run below contains.
\<close>

fun exec_instr :: "instr \<Rightarrow> machine \<Rightarrow> machine option" where
  "exec_instr (DForm op r1 r2 im) s = Some (advance (execDForm op r1 r2 im s))"
| "exec_instr (XForm op r1 r2 r3) s = Some (advance (execXForm op r1 r2 r3 s))"
| "exec_instr (Cmp op ra rb) s = Some (advance (execCmp op (gpr s ra) (gpr s rb) s))"
| "exec_instr (CmpI op ra im) s = Some (advance (execCmp op (gpr s ra) (cmpImmediate op im) s))"
| "exec_instr (Ext op ra rs) s = Some (advance (setReg ra (execExt op (gpr s rs)) s))"
| "exec_instr (Rldicr ra rs sh me) s =
     Some (advance (setReg ra (word_rotl sh (gpr s rs) AND NOT (mask (63 - me))) s))"
| "exec_instr (Rldicl ra rs sh mb) s =
     Some (advance (setReg ra (word_rotl sh (gpr s rs) AND mask (64 - mb)) s))"
| "exec_instr (Mtxer rs) s =
     Some (advance (s\<lparr>xerSO := bit (gpr s rs) 31, xerOV := bit (gpr s rs) 30,
                      xerCA := bit (gpr s rs) 29\<rparr>))"
| "exec_instr (Mtctr rs) s = Some (advance (s\<lparr>ctr := gpr s rs\<rparr>))"
| "exec_instr (Bctr lk) s =
     Some ((if lk = LinkB then s\<lparr>lr := word_of_int (pc s + 4)\<rparr> else s)
             \<lparr>pc := uint (ctr s AND NOT 3)\<rparr>)"
| "exec_instr (Bc off c crn) s =
     (if condOnlyXER c then None
      else if branchTaken c crn s then Some (s\<lparr>pc := pc s + off\<rparr>)
      else Some (advance s))"
| "exec_instr (B off) s = Some (s\<lparr>pc := pc s + off\<rparr>)"
| "exec_instr Nop s = Some (advance s)"
| "exec_instr Lwsync s = Some (advance s)"
| "exec_instr _ s = None"

text \<open>
  Running a sequence whose first word is at \<open>pc\<close>: the words are executed in order for as
  long as control falls through to the next one. A taken branch ends the run; the state
  returned then holds the branch target in \<open>pc\<close>. Falling off the end leaves \<open>pc\<close> just
  behind the sequence.
\<close>

fun exec_seq :: "instr list \<Rightarrow> machine \<Rightarrow> machine option" where
  "exec_seq [] s = Some s"
| "exec_seq (i # rest) s =
     (case exec_instr i s of
        None \<Rightarrow> None
      | Some s' \<Rightarrow> if pc s' = pc s + 4 then exec_seq rest s' else Some s')"

text \<open>A mathematical integer that a signed 64-bit register can hold.\<close>

definition fitsInt64 :: "int \<Rightarrow> bool" where
  "fitsInt64 x = (- (2 ^ 63) \<le> x \<and> x < 2 ^ 63)"

text \<open>A machine state to start examples from: everything zero, \<open>pc\<close> at offset 0.\<close>

definition initMachine :: machine where
  "initMachine =
    \<lparr>gpr = (\<lambda>r. 0), cr = (\<lambda>n. CRF False False False False),
     xerSO = False, xerOV = False, xerCA = False, ctr = 0, lr = 0, pc = 0,
     mem = (\<lambda>a. 0), reservation = None\<rparr>"

text \<open>The words a macro-assembler call appended to the buffer.\<close>

definition emitted :: "masm \<Rightarrow> masm \<Rightarrow> instr list" where
  "emitted m m' = drop (length (buffer m)) (buffer m')"

section \<open>Properties\<close>

lemmas emitter_defs =
  writeInst_def xs_li_def xs_lis_def as_ori_def as_oris_def as_rldicr_def as_rldicl_def
  as_nop_def xs_mtctr_def xs_mtxer_def as_bctr_def as_bc_def as_xori_def as_andi_rc_def
  as_add_def as_subf_def as_and_def as_or_def as_xor_def as_nor_def as_addo_rc_def
  as_subfo_rc_def as_slw_def as_srw_def as_ldarx_def as_stdcx_def as_lwarx_def as_stwcx_def
  as_cmpd_def as_cmpld_def as_cmpw_def as_cmplw_def as_cmpdi_def as_cmpwi_def as_cmplwi_def
  as_extsb_def as_extsh_def as_extsw_def as_lbz_def as_lhz_def as_lwz_def as_ld_def
  as_stb_def as_sth_def as_stw_def as_std_def as_mfcr_def as_rlwinm_def as_lwsync_def
  as_b_def xs_trap_def xs_trap_tagged_def x_srdi_def x_slwi_def

lemmas machine_defs =
  execDForm_def execXForm_def execCmp_def execExt_def setReg_def setCR_def advance_def
  regOrZero_def signedCompare_def cmpImmediate_def lowWord_def

subsection \<open>Immediate materialization\<close>

text \<open>
  C1 (the claim fails on the code). \<^verbatim>\<open>ma_li(dest, 32768)\<close>, the value just above the
  signed 16-bit range, emits the single instruction \<^verbatim>\<open>li dest, 0x8000\<close>; the hardware
  sign-extends the immediate, so from every machine state the register ends up holding
  \<open>0xffffffffffff8000\<close> and not \<open>0x8000\<close>: the value does not round-trip.
\<close>

theorem ma_li_32768_is_sign_extended:
  "emitted m (ma_li dest 32768 m) = [DForm ADDI dest 0 0x8000] \<and>
   map_option (\<lambda>s'. gpr s' dest) (exec_seq (emitted m (ma_li dest 32768 m)) s)
     = Some 0xffffffffffff8000"
  by (simp add: ma_li_def emitter_defs emitted_def machine_defs)

text \<open>
  C2. For every 64-bit immediate \<^verbatim>\<open>ma_liPatchable\<close> appends exactly the five words
  \<^verbatim>\<open>lis\<close>, \<^verbatim>\<open>ori\<close>, \<^verbatim>\<open>rldicr\<close>, \<^verbatim>\<open>oris\<close>, \<^verbatim>\<open>ori\<close>, whatever their operand bits, and so
  advances the buffer by 20 bytes.
\<close>

theorem ma_liPatchable_five_words:
  "emitted m (ma_liPatchable dest imm m) =
     [DForm ADDIS dest 0 (Imm16_Upper (ucast (drop_bit 32 imm))),
      DForm ORI dest dest (Imm16_Lower (ucast (drop_bit 32 imm))),
      Rldicr dest dest 32 31,
      DForm ORIS dest dest (Imm16_Upper (ucast imm)),
      DForm ORI dest dest (Imm16_Lower (ucast imm))] \<and>
   length (emitted m (ma_liPatchable dest imm m)) = 5 \<and>
   nextOffset (ma_liPatchable dest imm m) = nextOffset m + 20"
  by (simp add: ma_liPatchable_def emitter_defs emitted_def nextOffset_def)

text \<open>The immediate zero: five words, every operand field zero.\<close>

theorem ma_liPatchable_five_words_witness:
  "emitted emptyMasm (ma_liPatchable 3 0 emptyMasm) =
     [DForm ADDIS 3 0 0, DForm ORI 3 3 0, Rldicr 3 3 32 31, DForm ORIS 3 3 0, DForm ORI 3 3 0] \<and>
   nextOffset (ma_liPatchable 3 0 emptyMasm) = 20"
  using ma_liPatchable_five_words [of emptyMasm 3 0]
  by (simp add: Imm16_Upper_def Imm16_Lower_def nextOffset_def emptyMasm_def)

subsection \<open>Control transfer\<close>

text \<open>
  C3 (the claim fails on the code). A toggled call emitted enabled is 8 words long (the
  five-word load, \<^verbatim>\<open>mtctr\<close>, \<^verbatim>\<open>bctrl\<close>, \<^verbatim>\<open>nop\<close>), one emitted disabled is 7 words long
  (the load and two no-ops). Whatever \<^verbatim>\<open>ToggledCallSize\<close> is, the assertion that closes
  \<^verbatim>\<open>toggledCall\<close> fails for one of the two.
\<close>

theorem toggledCall_length_depends_on_enabled:
  "length (emitted m (toggledCall_body target True m)) = 8 \<and>
   length (emitted m (toggledCall_body target False m)) = 7 \<and>
   (toggledCall toggledCallSize target True m = None \<or>
    toggledCall toggledCallSize target False m = None)"
  by (simp add: toggledCall_def toggledCall_body_def ma_liPatchable_def addPendingJump_def
      emitter_defs emitted_def nextOffset_def Let_def)

subsection \<open>Moves\<close>

text \<open>
  C10. \<^verbatim>\<open>move64To32\<close> emits the single instruction \<^verbatim>\<open>or dest, src, src\<close>; running it
  from any machine state leaves in \<open>dest\<close> the full 64-bit contents of \<open>src\<close>, upper word
  included: nothing is masked.
\<close>

theorem move64To32_copies_all_64_bits:
  "emitted m (move64To32 src dest m) = [XForm OR_RR dest src src] \<and>
   map_option (\<lambda>s'. gpr s' dest) (exec_seq (emitted m (move64To32 src dest m)) s)
     = Some (gpr s src)"
  by (simp add: move64To32_def emitter_defs emitted_def machine_defs)

theorem move64To32_copies_all_64_bits_witness:
  "map_option (\<lambda>s'. gpr s' 4)
     (exec_seq (emitted emptyMasm (move64To32 3 4 emptyMasm))
        (setReg 3 0xfedcba9876543210 initMachine))
     = Some (gpr (setReg 3 0xfedcba9876543210 initMachine) 3)"
  by (rule conjunct2 [OF move64To32_copies_all_64_bits
        [of emptyMasm 3 4 "setReg 3 0xfedcba9876543210 initMachine"]])

end
